theory Spec2Isabelle
  imports Complex_Main
begin

section \<open>JavaScript numbers\<close>

text \<open>
  A Number of the script is a finite value, one of the two infinities or NaN. Finite
  arithmetic is the exact arithmetic of the reals: the rounding of binary64 and its
  overflow are outside the model, and the two zeros are one value, so a division by
  zero takes its sign from the dividend alone. The special values follow IEEE 754 as
  ECMAScript applies it.
\<close>

datatype jsnum = Fin real | PInf | NInf | NaN

fun isFinite :: "jsnum \<Rightarrow> bool" where
  "isFinite (Fin x) = True"
| "isFinite n = False"

text \<open>Truthiness of a Number: 0 and NaN are falsy.\<close>

fun truthy :: "jsnum \<Rightarrow> bool" where
  "truthy (Fin x) = (x \<noteq> 0)"
| "truthy NaN = False"
| "truthy n = True"

fun jneg :: "jsnum \<Rightarrow> jsnum" where
  "jneg (Fin x) = Fin (- x)"
| "jneg PInf = NInf"
| "jneg NInf = PInf"
| "jneg NaN = NaN"

fun jadd :: "jsnum \<Rightarrow> jsnum \<Rightarrow> jsnum" where
  "jadd (Fin a) (Fin b) = Fin (a + b)"
| "jadd (Fin a) PInf = PInf"
| "jadd (Fin a) NInf = NInf"
| "jadd PInf (Fin b) = PInf"
| "jadd NInf (Fin b) = NInf"
| "jadd PInf PInf = PInf"
| "jadd NInf NInf = NInf"
| "jadd PInf NInf = NaN"
| "jadd NInf PInf = NaN"
| "jadd NaN b = NaN"
| "jadd a NaN = NaN"

definition jsub :: "jsnum \<Rightarrow> jsnum \<Rightarrow> jsnum" where
  "jsub a b = jadd a (jneg b)"

fun jmul :: "jsnum \<Rightarrow> jsnum \<Rightarrow> jsnum" where
  "jmul (Fin a) (Fin b) = Fin (a * b)"
| "jmul (Fin a) PInf = (if a = 0 then NaN else if 0 < a then PInf else NInf)"
| "jmul (Fin a) NInf = (if a = 0 then NaN else if 0 < a then NInf else PInf)"
| "jmul PInf (Fin b) = (if b = 0 then NaN else if 0 < b then PInf else NInf)"
| "jmul NInf (Fin b) = (if b = 0 then NaN else if 0 < b then NInf else PInf)"
| "jmul PInf PInf = PInf"
| "jmul NInf NInf = PInf"
| "jmul PInf NInf = NInf"
| "jmul NInf PInf = NInf"
| "jmul NaN b = NaN"
| "jmul a NaN = NaN"

fun jdiv :: "jsnum \<Rightarrow> jsnum \<Rightarrow> jsnum" where
  "jdiv (Fin a) (Fin b) =
     (if b = 0 then (if a = 0 then NaN else if 0 < a then PInf else NInf)
      else Fin (a / b))"
| "jdiv (Fin a) PInf = Fin 0"
| "jdiv (Fin a) NInf = Fin 0"
| "jdiv PInf (Fin b) = (if b < 0 then NInf else PInf)"
| "jdiv NInf (Fin b) = (if b < 0 then PInf else NInf)"
| "jdiv PInf PInf = NaN"
| "jdiv NInf NInf = NaN"
| "jdiv PInf NInf = NaN"
| "jdiv NInf PInf = NaN"
| "jdiv NaN b = NaN"
| "jdiv a NaN = NaN"

text \<open>The relational operators: every comparison with NaN is false.\<close>

fun jlt :: "jsnum \<Rightarrow> jsnum \<Rightarrow> bool" where
  "jlt (Fin a) (Fin b) = (a < b)"
| "jlt (Fin a) PInf = True"
| "jlt NInf (Fin b) = True"
| "jlt NInf PInf = True"
| "jlt a b = False"

definition jgt :: "jsnum \<Rightarrow> jsnum \<Rightarrow> bool" where
  "jgt a b = jlt b a"

definition jle :: "jsnum \<Rightarrow> jsnum \<Rightarrow> bool" where
  "jle a b = (a \<noteq> NaN \<and> b \<noteq> NaN \<and> (a = b \<or> jlt a b))"

text \<open>
  \<^verbatim>\<open>Math.pow(x, y)\<close> for the exponents the script passes, which are differences of
  years that it has checked not to be negative. \<^verbatim>\<open>Math.pow(x, 0)\<close> is 1 for every
  \<^verbatim>\<open>x\<close>, NaN included.
\<close>

definition Math_pow :: "jsnum \<Rightarrow> nat \<Rightarrow> jsnum" where
  "Math_pow x n =
     (if n = 0 then Fin 1
      else (case x of
              Fin b \<Rightarrow> Fin (b ^ n)
            | PInf \<Rightarrow> PInf
            | NInf \<Rightarrow> (if even n then PInf else NInf)
            | NaN \<Rightarrow> NaN))"

text \<open>\<^verbatim>\<open>Math.round\<close>: the nearest integer, a tie going up.\<close>

fun Math_round :: "jsnum \<Rightarrow> jsnum" where
  "Math_round (Fin x) = Fin (of_int \<lfloor>x + 1 / 2\<rfloor>)"
| "Math_round n = n"

section \<open>Strings and parsing\<close>

text \<open>
  Strings are lists of characters. The white space that \<^verbatim>\<open>trim\<close> and the parsers
  skip is the ASCII white space: tab, line feed, vertical tab, form feed, carriage
  return and space.
\<close>

definition isWhiteSpace :: "char \<Rightarrow> bool" where
  "isWhiteSpace c = (c \<in> set [CHR 0x09, CHR 0x0A, CHR 0x0B, CHR 0x0C, CHR 0x0D, CHR '' ''])"

definition trim :: "string \<Rightarrow> string" where
  "trim s = rev (dropWhile isWhiteSpace (rev (dropWhile isWhiteSpace s)))"

definition isDigit :: "char \<Rightarrow> bool" where
  "isDigit c = (c \<in> set ''0123456789'')"

definition digitVal :: "char \<Rightarrow> nat" where
  "digitVal c = of_char c - 48"

definition digitsVal :: "string \<Rightarrow> nat" where
  "digitsVal ds = foldl (\<lambda>a c. 10 * a + digitVal c) 0 ds"

text \<open>An optional sign in front of a literal: whether it is a minus, and the rest.\<close>

fun takeSign :: "string \<Rightarrow> bool \<times> string" where
  "takeSign [] = (False, [])"
| "takeSign (c # cs) =
     (if c = CHR ''-'' then (True, cs)
      else if c = CHR ''+'' then (False, cs)
      else (False, c # cs))"

text \<open>
  The exponent part of a decimal literal: \<^verbatim>\<open>e\<close> or \<^verbatim>\<open>E\<close>, an optional sign and at
  least one digit. Anything else is no exponent, and the literal ends before it.
\<close>

definition exponentPart :: "string \<Rightarrow> int" where
  "exponentPart s =
     (case s of
        [] \<Rightarrow> 0
      | c # cs \<Rightarrow>
          if c = CHR ''e'' \<or> c = CHR ''E'' then
            (let (neg, r) = takeSign cs; ds = takeWhile isDigit r
             in if ds = [] then 0
                else if neg then - int (digitsVal ds) else int (digitsVal ds))
          else 0)"

text \<open>
  \<^verbatim>\<open>parseFloat\<close>: leading white space is skipped, the longest prefix that is a
  decimal literal is read, and what follows it is ignored. No such prefix gives NaN.
\<close>

definition parseFloat :: "string \<Rightarrow> jsnum" where
  "parseFloat s =
     (let (neg, s2) = takeSign (dropWhile isWhiteSpace s)
      in if take 8 s2 = ''Infinity'' then (if neg then NInf else PInf)
         else
           let ip = takeWhile isDigit s2;
               r1 = dropWhile isDigit s2;
               hasDot = (r1 \<noteq> [] \<and> hd r1 = CHR ''.'');
               fp = (if hasDot then takeWhile isDigit (tl r1) else []);
               r2 = (if hasDot then dropWhile isDigit (tl r1) else r1)
           in if ip = [] \<and> fp = [] then NaN
              else
                let m = real (digitsVal ip) + real (digitsVal fp) / 10 ^ length fp;
                    v = m * 10 powi exponentPart r2
                in Fin (if neg then - v else v))"

text \<open>
  \<^verbatim>\<open>parseInt(s, 10)\<close>: leading white space, an optional sign and the longest run of
  decimal digits. \<^verbatim>\<open>None\<close> is NaN.
\<close>

definition parseInt10 :: "string \<Rightarrow> int option" where
  "parseInt10 s =
     (let (neg, r) = takeSign (dropWhile isWhiteSpace s); ds = takeWhile isDigit r
      in if ds = [] then None
         else Some (if neg then - int (digitsVal ds) else int (digitsVal ds)))"

text \<open>The values the parsers of the script are given.\<close>

datatype jsval = Undefined | Null | Num jsnum | Str string

text \<open>
  \<^verbatim>\<open>safeParseNumber\<close>: a number is returned as it is; a falsy value that is not 0
  (here undefined, null and the empty string) gives NaN; otherwise every comma is
  removed, the text is trimmed and \<^verbatim>\<open>parseFloat\<close> reads it.
\<close>

fun safeParseNumber :: "jsval \<Rightarrow> jsnum" where
  "safeParseNumber (Num n) = n"
| "safeParseNumber Undefined = NaN"
| "safeParseNumber Null = NaN"
| "safeParseNumber (Str str) =
     (if str = [] then NaN
      else parseFloat (trim (filter (\<lambda>c. c \<noteq> CHR '','') str)))"

text \<open>Lines 32 to 35 of \<^verbatim>\<open>parseCagr\<close>, on the number \<^verbatim>\<open>n\<close> that was parsed.\<close>

definition cagrOfNumber :: "jsnum \<Rightarrow> jsnum" where
  "cagrOfNumber n =
     (if \<not> isFinite n then NaN
      else if jgt n (Fin 1) then jdiv n (Fin 100)
      else n)"

text \<open>
  \<^verbatim>\<open>parseCagr\<close>. For a string the text is trimmed, one trailing \<^verbatim>\<open>%\<close> is dropped and
  \<^verbatim>\<open>safeParseNumber\<close> reads the rest. For a number \<^verbatim>\<open>v\<close> the script parses
  \<^verbatim>\<open>String(v)\<close>, the decimal text that reads back as \<^verbatim>\<open>v\<close> itself (no comma, no
  \<^verbatim>\<open>%\<close>, no white space), so \<^verbatim>\<open>n\<close> is \<^verbatim>\<open>v\<close>.
\<close>

fun parseCagr :: "jsval \<Rightarrow> jsnum" where
  "parseCagr Undefined = NaN"
| "parseCagr Null = NaN"
| "parseCagr (Num v) = cagrOfNumber v"
| "parseCagr (Str v) =
     (let s = trim v;
          s = (if s \<noteq> [] \<and> last s = CHR ''%'' then butlast s else s)
      in cagrOfNumber (safeParseNumber (Str s)))"

section \<open>The benchmark series\<close>

text \<open>Reading an array at an index: \<^verbatim>\<open>None\<close> is \<^verbatim>\<open>undefined\<close>, out of range.\<close>

definition arr_get :: "'a list \<Rightarrow> int \<Rightarrow> 'a option" where
  "arr_get xs i = (if 0 \<le> i \<and> i < int (length xs) then Some (xs ! nat i) else None)"

text \<open>\<^verbatim>\<open>a || d\<close> for an array element \<^verbatim>\<open>a\<close> that is a number or undefined.\<close>

definition orElse :: "jsnum option \<Rightarrow> jsnum \<Rightarrow> jsnum" where
  "orElse a d = (case a of None \<Rightarrow> d | Some x \<Rightarrow> if truthy x then x else d)"

text \<open>The loop of \<^verbatim>\<open>buildNiftyData\<close>, on \<^verbatim>\<open>years.length\<close>, the rate, \<^verbatim>\<open>last\<close> (here \<open>lastv\<close>) and \<^verbatim>\<open>result\<close>.\<close>

function extendLoop :: "nat \<Rightarrow> jsnum \<Rightarrow> jsnum \<Rightarrow> jsnum list \<Rightarrow> jsnum list" where
  "extendLoop n approxCagr lastv result =
     (if length result < n then
        (let lastv' = jmul lastv (jadd (Fin 1) approxCagr)
         in extendLoop n approxCagr lastv' (result @ [Math_round lastv']))
      else result)"
  by pat_completeness auto
termination
  by (relation "measure (\<lambda>(n, approxCagr, lastv, result). n - length result)") auto

declare extendLoop.simps [simp del]

definition buildNiftyData :: "int list \<Rightarrow> jsnum list \<Rightarrow> jsnum list" where
  "buildNiftyData years seedArray =
     (let result = seedArray
      in if length years \<le> length result then map Math_round (take (length years) result)
         else
           let lastv = orElse (arr_get result (int (length result) - 1)) (Fin 10000);
               prev = orElse (arr_get result (int (length result) - 2)) lastv;
               approxCagr = (if jgt prev (Fin 0) then jsub (jdiv lastv prev) (Fin 1)
                             else Fin (8 / 100));
               approxCagr = (if \<not> isFinite approxCagr \<or> jle approxCagr (Fin (- 1))
                             then Fin (8 / 100) else approxCagr)
           in map Math_round (extendLoop (length years) approxCagr lastv result))"

section \<open>Startup constants\<close>

definition START_YEAR :: int where
  "START_YEAR = 2015"

text \<open>
  \<^verbatim>\<open>YEARS\<close> for a given \<^verbatim>\<open>CURRENT_YEAR\<close>: the years from 2015 to the current year. A
  negative length gives the empty array.
\<close>

definition mkYEARS :: "int \<Rightarrow> int list" where
  "mkYEARS currentYear =
     map (\<lambda>i. START_YEAR + int i) [0..<nat (currentYear - START_YEAR + 1)]"

definition baseNiftySamples :: "jsnum list" where
  "baseNiftySamples =
     [Fin 10000, Fin 11000, Fin 12500, Fin 13000, Fin 15000, Fin 14000,
      Fin 18000, Fin 21000, Fin 20000, Fin 24000, Fin 25000]"

text \<open>The constants that the handlers close over.\<close>

record env =
  CURRENT_YEAR :: int
  YEARS :: "int list"
  niftyData :: "jsnum list"

text \<open>The constants as the script computes them when the page loads in a given year.\<close>

definition startup :: "int \<Rightarrow> env" where
  "startup currentYear =
     \<lparr>CURRENT_YEAR = currentYear,
      YEARS = mkYEARS currentYear,
      niftyData = buildNiftyData (mkYEARS currentYear) baseNiftySamples\<rparr>"

section \<open>Formatting\<close>

text \<open>The decimal digits of a natural number.\<close>

definition digitChar :: "nat \<Rightarrow> char" where
  "digitChar d = ''0123456789'' ! d"

fun natDigits :: "nat \<Rightarrow> string" where
  "natDigits n =
     (if n < 10 then [digitChar n]
      else natDigits (n div 10) @ [digitChar (n mod 10)])"

declare natDigits.simps [simp del]

text \<open>
  \<^verbatim>\<open>Number.prototype.toString\<close> for a value of at least \<open>10\<^sup>2\<^sup>1\<close>: exponent notation.
  Binary64 has only integers at this size; the platform prints the shortest digits that
  read back as the same double, the model the significant digits of the integer part.
\<close>

definition numberToStringBig :: "real \<Rightarrow> string" where
  "numberToStringBig x =
     (let ds = natDigits (nat \<lfloor>x\<rfloor>);
          sig = rev (dropWhile (\<lambda>c. c = CHR ''0'') (rev ds))
      in (if length sig \<le> 1 then sig else hd sig # CHR ''.'' # tl sig)
         @ ''e+'' @ natDigits (length ds - 1))"

text \<open>
  \<^verbatim>\<open>x.toFixed(f)\<close>: the integer \<open>n\<close> nearest to \<open>x \<times> 10\<^sup>f\<close> (the larger of two), printed
  with \<open>f\<close> digits after the point; from \<open>10\<^sup>2\<^sup>1\<close> on the result is that of
  \<^verbatim>\<open>toString\<close>.
\<close>

fun toFixed :: "nat \<Rightarrow> jsnum \<Rightarrow> string" where
  "toFixed f NaN = ''NaN''"
| "toFixed f PInf = ''Infinity''"
| "toFixed f NInf = ''-Infinity''"
| "toFixed f (Fin x) =
     (let s = (if x < 0 then ''-'' else []);
          x = \<bar>x\<bar>
      in if 10 ^ 21 \<le> x then s @ numberToStringBig x
         else
           let n = nat \<lfloor>x * 10 ^ f + 1 / 2\<rfloor>;
               m = natDigits n;
               m = (if f \<noteq> 0 then
                      (let m = (if length m \<le> f
                                then replicate (f + 1 - length m) (CHR ''0'') @ m else m);
                           k = length m
                       in take (k - f) m @ ''.'' @ drop (k - f) m)
                    else m)
           in s @ m)"

text \<open>
  The grouping of the \<^verbatim>\<open>en-IN\<close> locale: the last three digits, then groups of two.
\<close>

function groupPairs :: "string \<Rightarrow> string" where
  "groupPairs ds =
     (if length ds \<le> 2 then ds
      else groupPairs (take (length ds - 2) ds) @ '','' @ drop (length ds - 2) ds)"
  by pat_completeness auto
termination
  by (relation "measure length") auto

declare groupPairs.simps [simp del]

definition groupIN :: "string \<Rightarrow> string" where
  "groupIN ds =
     (if length ds \<le> 3 then ds
      else groupPairs (take (length ds - 3) ds) @ '','' @ drop (length ds - 3) ds)"

text \<open>
  \<^verbatim>\<open>v.toLocaleString('en-IN', { maximumFractionDigits: 0 })\<close>: the value rounded to an
  integer (a tie away from zero) and grouped. The infinity sign is written as its three
  bytes in UTF-8.
\<close>

definition infinitySign :: string where
  "infinitySign = [CHR 0xE2, CHR 0x88, CHR 0x9E]"

fun toLocaleStringIN :: "jsnum \<Rightarrow> string" where
  "toLocaleStringIN NaN = ''NaN''"
| "toLocaleStringIN PInf = infinitySign"
| "toLocaleStringIN NInf = ''-'' @ infinitySign"
| "toLocaleStringIN (Fin x) =
     (if x < 0 then ''-'' else []) @ groupIN (natDigits (nat \<lfloor>\<bar>x\<bar> + 1 / 2\<rfloor>))"

text \<open>The rupee sign, as its three bytes in UTF-8.\<close>

definition rupeeSign :: string where
  "rupeeSign = [CHR 0xE2, CHR 0x82, CHR 0xB9]"

definition fmtINR :: "jsnum \<Rightarrow> string" where
  "fmtINR v = rupeeSign @ toLocaleStringIN v"

section \<open>The projection and the rescaled benchmark\<close>

text \<open>An entry of a chart series: \<^verbatim>\<open>None\<close> is \<^verbatim>\<open>null\<close>.\<close>

type_synonym cell = "jsnum option"

text \<open>
  \<^verbatim>\<open>computeUserSeries\<close>, with \<^verbatim>\<open>YEARS\<close> as its first argument. The start year is an
  integer: the one call passes the result of \<^verbatim>\<open>parseInt\<close> after it was found finite.
\<close>

definition computeUserSeries :: "int list \<Rightarrow> jsnum \<Rightarrow> int \<Rightarrow> jsnum \<Rightarrow> cell list" where
  "computeUserSeries years principalv startYear cagrDecimal =
     map (\<lambda>year.
            if year < startYear then None
            else
              let yearsDiff = year - startYear;
                  val = jmul principalv
                          (Math_pow (jadd (Fin 1) cagrDecimal) (nat yearsDiff))
              in if isFinite val then Some (Math_round val) else None)
         years"

text \<open>\<^verbatim>\<open>Array.prototype.indexOf\<close>: the first index of the value, or -1.\<close>

fun indexOf :: "int list \<Rightarrow> int \<Rightarrow> int" where
  "indexOf [] y = - 1"
| "indexOf (x # xs) y =
     (if x = y then 0 else (let i = indexOf xs y in if i < 0 then - 1 else i + 1))"

text \<open>An array element used as a number: \<^verbatim>\<open>undefined\<close> becomes NaN.\<close>

definition toNumber :: "jsnum option \<Rightarrow> jsnum" where
  "toNumber a = (case a of None \<Rightarrow> NaN | Some x \<Rightarrow> x)"

text \<open>
  Lines 365 to 369 of \<^verbatim>\<open>calculateGrowth\<close>: the benchmark rescaled to the principal (here \<open>principalv\<close>).
  The start year is the result of \<^verbatim>\<open>parseInt\<close>, \<^verbatim>\<open>None\<close> for NaN: then no year is
  before it and \<^verbatim>\<open>indexOf\<close> finds nothing.
\<close>

definition scaledNiftyData :: "env \<Rightarrow> jsnum \<Rightarrow> int option \<Rightarrow> cell list" where
  "scaledNiftyData e principalv startYear =
     map (\<lambda>(val, idx).
            if (case (arr_get (YEARS e) (int idx), startYear) of
                  (Some y, Some sy) \<Rightarrow> y < sy
                | _ \<Rightarrow> False)
            then None
            else
              let i = (case startYear of None \<Rightarrow> - 1 | Some sy \<Rightarrow> indexOf (YEARS e) sy);
                  scaleFactor = jdiv principalv (toNumber (arr_get (niftyData e) i))
              in Some (Math_round (jmul val scaleFactor)))
         (zip (niftyData e) [0..<length (niftyData e)])"

section \<open>The page and the recalculation\<close>

text \<open>
  What \<^verbatim>\<open>calculateGrowth\<close> reads and writes. An element is \<^verbatim>\<open>None\<close> when the page
  does not have it. The inputs carry their \<^verbatim>\<open>value\<close>, the result box its
  \<^verbatim>\<open>style.display\<close>, the three result fields their \<^verbatim>\<open>textContent\<close>; \<open>activeBtn\<close> is
  the \<^verbatim>\<open>data-cagr\<close> of the active category button (\<^verbatim>\<open>Undefined\<close> without the
  attribute), \<open>None\<close> when no button is active. Of the chart: the data of the two
  datasets, whether the second one is hidden, and \<open>drawn\<close>, what the last
  \<^verbatim>\<open>marketChart.update\<close> handed to the renderer.
\<close>

record page =
  simAmountInput :: "string option"
  simYearSelect :: "string option"
  simResultBox :: "string option"
  simFinalAmountEl :: "string option"
  simTotalReturnEl :: "string option"
  simCagrUsedEl :: "string option"
  activeBtn :: "jsval option"
  ds0_data :: "cell list"
  ds1_data :: "cell list"
  ds1_hidden :: bool
  drawn :: "cell list \<times> cell list \<times> bool"

definition chartUpdate :: "page \<Rightarrow> page" where
  "chartUpdate p = p\<lparr>drawn := (ds0_data p, ds1_data p, ds1_hidden p)\<rparr>"

definition revealUserSeries :: "cell list \<Rightarrow> page \<Rightarrow> page" where
  "revealUserSeries series p = chartUpdate (p\<lparr>ds1_data := series, ds1_hidden := False\<rparr>)"

definition hideUserSeries :: "env \<Rightarrow> page \<Rightarrow> page" where
  "hideUserSeries e p =
     chartUpdate (p\<lparr>ds1_data := map (\<lambda>_. None) (YEARS e), ds1_hidden := True\<rparr>)"

text \<open>Writing the text of an element that may be missing.\<close>

definition setText :: "string option \<Rightarrow> string \<Rightarrow> string option" where
  "setText el t = (case el of None \<Rightarrow> None | Some _ \<Rightarrow> Some t)"

text \<open>The three branches that give up: the result box is hidden, the user series too.\<close>

definition suppress :: "env \<Rightarrow> page \<Rightarrow> page" where
  "suppress e p = hideUserSeries e (p\<lparr>simResultBox := Some ''none''\<rparr>)"

text \<open>
  Lines 390 to 402 of \<^verbatim>\<open>calculateGrowth\<close>: the duration, its check, and the three
  texts of the summary (final amount, total return, rate used). \<^verbatim>\<open>None\<close> is the
  branch that gives up.
\<close>

definition computeSummary ::
  "jsnum \<Rightarrow> int \<Rightarrow> jsnum \<Rightarrow> int \<Rightarrow> (string \<times> string \<times> string) option" where
  "computeSummary principalv startYear cagr currentYear =
     (let durationYears = currentYear - startYear
      in if durationYears < 0 then None
         else
           let finalAmount =
                 jmul principalv (Math_pow (jadd (Fin 1) cagr) (nat durationYears));
               totalReturnPercent =
                 jmul (jdiv (jsub finalAmount principalv) principalv) (Fin 100)
           in Some (fmtINR (Math_round finalAmount),
                    toFixed 1 totalReturnPercent @ ''%'',
                    toFixed 2 (jmul cagr (Fin 100)) @ ''%''))"

definition calculateGrowth :: "env \<Rightarrow> page \<Rightarrow> page" where
  "calculateGrowth e p =
     (case (simAmountInput p, simYearSelect p, simResultBox p) of
        (Some amountValue, Some yearValue, Some _) \<Rightarrow>
          let principalv = safeParseNumber (Str amountValue);
              startYear = parseInt10 yearValue;
              p = p\<lparr>ds0_data := scaledNiftyData e principalv startYear\<rparr>
          in (case (activeBtn p, startYear) of
                (Some rawCagr, Some sy) \<Rightarrow>
                  if \<not> isFinite principalv \<or> jlt principalv (Fin 1000) then suppress e p
                  else
                    let cagr = parseCagr rawCagr
                    in if \<not> isFinite cagr then suppress e p
                       else
                         (case computeSummary principalv sy cagr (CURRENT_YEAR e) of
                            None \<Rightarrow> suppress e p
                          | Some (finalText, returnText, cagrText) \<Rightarrow>
                              let p = p\<lparr>simFinalAmountEl := setText (simFinalAmountEl p) finalText,
                                        simTotalReturnEl := setText (simTotalReturnEl p) returnText,
                                        simCagrUsedEl := setText (simCagrUsedEl p) cagrText,
                                        simResultBox := Some ''block''\<rparr>;
                                  userSeries = computeUserSeries (YEARS e) principalv sy cagr
                              in chartUpdate (revealUserSeries userSeries p))
              | _ \<Rightarrow> suppress e p)
      | _ \<Rightarrow> p)"

section \<open>Notions used in the statements\<close>

subsection \<open>Texts and numbers\<close>







subsection \<open>The extension of the benchmark\<close>





subsection \<open>The gate of the recalculation\<close>

text \<open>
  What \<^verbatim>\<open>calculateGrowth\<close> checks before it shows a result: a category is active, the
  amount parses to a finite number of at least 1000, the year parses to an integer,
  the rate of the category parses to a finite number, and the year is not after the
  current one.
\<close>

definition passes :: "env \<Rightarrow> page \<Rightarrow> bool" where
  "passes e p =
     (\<exists>a y raw x sy c.
        simAmountInput p = Some a \<and> simYearSelect p = Some y \<and> activeBtn p = Some raw \<and>
        safeParseNumber (Str a) = Fin x \<and> 1000 \<le> x \<and> parseInt10 y = Some sy \<and>
        parseCagr raw = Fin c \<and> sy \<le> CURRENT_YEAR e)"

text \<open>The page after a recalculation that passed, for the values that were parsed.\<close>

definition shown :: "env \<Rightarrow> page \<Rightarrow> jsnum \<Rightarrow> int \<Rightarrow> jsnum \<Rightarrow> page" where
  "shown e p pv sy c =
     (case computeSummary pv sy c (CURRENT_YEAR e) of
        None \<Rightarrow> p
      | Some (finalText, returnText, cagrText) \<Rightarrow>
          p\<lparr>simFinalAmountEl := setText (simFinalAmountEl p) finalText,
            simTotalReturnEl := setText (simTotalReturnEl p) returnText,
            simCagrUsedEl := setText (simCagrUsedEl p) cagrText,
            simResultBox := Some ''block'',
            ds0_data := scaledNiftyData e pv (Some sy),
            ds1_data := computeUserSeries (YEARS e) pv sy c,
            ds1_hidden := False,
            drawn := (scaledNiftyData e pv (Some sy),
                      computeUserSeries (YEARS e) pv sy c, False)\<rparr>)"

subsection \<open>Pages and constants of the examples\<close>

text \<open>
  The page once the script has built the chart (lines 249 to 332): every element is
  there, the result fields are empty, the first dataset holds the benchmark, the second
  one holds nulls and is hidden. The two inputs and the active category are given.
\<close>

definition loadedPage :: "env \<Rightarrow> string \<Rightarrow> string \<Rightarrow> jsval option \<Rightarrow> page" where
  "loadedPage e amountValue yearValue active =
     \<lparr>simAmountInput = Some amountValue, simYearSelect = Some yearValue,
      simResultBox = Some [], simFinalAmountEl = Some [], simTotalReturnEl = Some [],
      simCagrUsedEl = Some [], activeBtn = active,
      ds0_data = map Some (niftyData e), ds1_data = map (\<lambda>_. None) (YEARS e),
      ds1_hidden = True,
      drawn = (map Some (niftyData e), map (\<lambda>_. None) (YEARS e), True)\<rparr>"


section \<open>Rules for evaluating the model on concrete inputs\<close>



section \<open>Facts about the numbers\<close>





lemma jmul_one: "isFinite p \<Longrightarrow> jmul p (Fin 1) = p"
  by (cases p) simp_all




lemma isFinite_iff: "isFinite v \<longleftrightarrow> (\<exists>c. v = Fin c)"
  by (cases v) auto

lemma finite_ge_1000:
  "isFinite pv \<and> \<not> jlt pv (Fin 1000) \<longleftrightarrow> (\<exists>x. pv = Fin x \<and> 1000 \<le> x)"
  by (cases pv) auto

section \<open>The benchmark series\<close>





text \<open>
  Claim C8. When the seed is at least as long as the axis, \<^verbatim>\<open>buildNiftyData\<close> returns
  the seed cut to the length of the axis, each value rounded to the nearest integer.
\<close>

theorem buildNiftyData_truncates:
  "length years \<le> length seed \<Longrightarrow>
     buildNiftyData years seed = map Math_round (take (length years) seed)"
  by (simp add: buildNiftyData_def)

theorem buildNiftyData_truncates_witness:
  "length [2015, 2016 :: int] \<le> length [Fin (1 / 2), Fin (110004 / 10), Fin 3] \<and>
   buildNiftyData [2015, 2016] [Fin (1 / 2), Fin (110004 / 10), Fin 3] = [Fin 1, Fin 11000]"
  using buildNiftyData_truncates [of "[2015, 2016]" "[Fin (1 / 2), Fin (110004 / 10), Fin 3]"]
  by simp




section \<open>The projection\<close>



text \<open>
  Claim C10. For a finite principal, whatever the rate, the entry of the projection at
  the start year is the rounded principal.
\<close>

theorem computeUserSeries_at_start:
  "isFinite p \<Longrightarrow> i < length years \<Longrightarrow> years ! i = sy \<Longrightarrow>
     computeUserSeries years p sy r ! i = Some (Math_round p)"
  by (simp add: computeUserSeries_def Math_pow_def jmul_one)

theorem computeUserSeries_at_start_witness:
  "isFinite (Fin (20005 / 10)) \<and> (1::nat) < length [2015, 2016, 2017 :: int] \<and>
   [2015, 2016, 2017 :: int] ! 1 = 2016 \<and>
   computeUserSeries [2015, 2016, 2017] (Fin (20005 / 10)) 2016 NaN ! 1 = Some (Fin 2001)"
  using computeUserSeries_at_start [of "Fin (20005 / 10)" 1 "[2015, 2016, 2017]" 2016 NaN]
  by simp

section \<open>Parsing\<close>



lemma not_digit_dot: "\<not> isDigit (CHR ''.'')"
  by (simp add: isDigit_def)











declare safeParseNumber.simps [simp del] parseCagr.simps [simp del]

section \<open>Formatting\<close>





lemma natDigits_nonempty: "natDigits n \<noteq> []"
  by (subst natDigits.simps) simp













section \<open>The branches of the recalculation\<close>

lemma computeSummary_None: "computeSummary pv sy c cy = None \<longleftrightarrow> cy < sy"
  by (auto simp: computeSummary_def Let_def)

lemma suppress_fields [simp]:
  "simResultBox (suppress e p) = Some ''none''"
  "ds1_data (suppress e p) = map (\<lambda>_. None) (YEARS e)"
  "ds1_hidden (suppress e p) = True"
  "ds0_data (suppress e p) = ds0_data p"
  "drawn (suppress e p) = (ds0_data p, map (\<lambda>_. None) (YEARS e), True)"
  "simFinalAmountEl (suppress e p) = simFinalAmountEl p"
  "simTotalReturnEl (suppress e p) = simTotalReturnEl p"
  "simCagrUsedEl (suppress e p) = simCagrUsedEl p"
  "simAmountInput (suppress e p) = simAmountInput p"
  "simYearSelect (suppress e p) = simYearSelect p"
  "activeBtn (suppress e p) = activeBtn p"
  by (simp_all add: suppress_def hideUserSeries_def chartUpdate_def)

lemma calculateGrowth_pass:
  assumes "simAmountInput p = Some a" "simYearSelect p = Some y" "simResultBox p = Some b"
    and "activeBtn p = Some raw" "safeParseNumber (Str a) = Fin x" "1000 \<le> x"
    and "parseInt10 y = Some sy" "parseCagr raw = Fin c" "sy \<le> CURRENT_YEAR e"
  shows "calculateGrowth e p = shown e p (Fin x) sy (Fin c)"
proof -
  from assms(9) obtain ft rt ct where
    cs: "computeSummary (Fin x) sy (Fin c) (CURRENT_YEAR e) = Some (ft, rt, ct)"
    using computeSummary_None [of "Fin x" sy "Fin c" "CURRENT_YEAR e"]
    by (cases "computeSummary (Fin x) sy (Fin c) (CURRENT_YEAR e)") auto
  show ?thesis
    using assms(1-8)
    by (simp add: calculateGrowth_def shown_def cs Let_def chartUpdate_def revealUserSeries_def
       )
qed

lemma calculateGrowth_fail:
  assumes "simAmountInput p = Some a" "simYearSelect p = Some y" "simResultBox p = Some b"
    and "\<not> passes e p"
  shows "calculateGrowth e p =
           suppress e (p\<lparr>ds0_data := scaledNiftyData e (safeParseNumber (Str a)) (parseInt10 y)\<rparr>)"
proof -
  have "passes e p" if "activeBtn p = Some raw" "parseInt10 y = Some sy"
    "isFinite (safeParseNumber (Str a))" "\<not> jlt (safeParseNumber (Str a)) (Fin 1000)"
    "isFinite (parseCagr raw)" "computeSummary (safeParseNumber (Str a)) sy (parseCagr raw) (CURRENT_YEAR e) \<noteq> None"
    for raw sy
  proof -
    from that(3,4) obtain x where x: "safeParseNumber (Str a) = Fin x" "1000 \<le> x"
      using finite_ge_1000 by blast
    from that(5) obtain c where c: "parseCagr raw = Fin c" using isFinite_iff by blast
    from that(6) have "sy \<le> CURRENT_YEAR e" by (simp add: computeSummary_None)
    with x c that(1,2) assms(1,2) show ?thesis unfolding passes_def by blast
  qed
  note H = this
  show ?thesis
  proof (cases "activeBtn p")
    case None
    then show ?thesis using assms(1-3)
      by (simp add: calculateGrowth_def Let_def)
  next
    case raw: (Some raw)
    show ?thesis
    proof (cases "parseInt10 y")
      case None
      then show ?thesis using assms(1-3) raw
        by (simp add: calculateGrowth_def Let_def)
    next
      case sy: (Some sy)
      from H [OF raw sy] assms(4) have
        "\<not> isFinite (safeParseNumber (Str a)) \<or> jlt (safeParseNumber (Str a)) (Fin 1000) \<or>
         \<not> isFinite (parseCagr raw) \<or>
         computeSummary (safeParseNumber (Str a)) sy (parseCagr raw) (CURRENT_YEAR e) = None"
        by blast
      then show ?thesis using assms(1-3) raw sy
        by (auto simp: calculateGrowth_def Let_def)
    qed
  qed
qed

lemma shown_fields:
  assumes "sy \<le> CURRENT_YEAR e"
  shows "simResultBox (shown e p pv sy c) = Some ''block''"
    and "ds0_data (shown e p pv sy c) = scaledNiftyData e pv (Some sy)"
    and "ds1_data (shown e p pv sy c) = computeUserSeries (YEARS e) pv sy c"
    and "ds1_hidden (shown e p pv sy c) = False"
    and "drawn (shown e p pv sy c) =
           (scaledNiftyData e pv (Some sy), computeUserSeries (YEARS e) pv sy c, False)"
    and "simAmountInput (shown e p pv sy c) = simAmountInput p"
    and "simYearSelect (shown e p pv sy c) = simYearSelect p"
    and "activeBtn (shown e p pv sy c) = activeBtn p"
proof -
  from assms obtain ft rt ct where
    cs: "computeSummary pv sy c (CURRENT_YEAR e) = Some (ft, rt, ct)"
    using computeSummary_None [of pv sy c "CURRENT_YEAR e"]
    by (cases "computeSummary pv sy c (CURRENT_YEAR e)") auto
  show "simResultBox (shown e p pv sy c) = Some ''block''"
    and "ds0_data (shown e p pv sy c) = scaledNiftyData e pv (Some sy)"
    and "ds1_data (shown e p pv sy c) = computeUserSeries (YEARS e) pv sy c"
    and "ds1_hidden (shown e p pv sy c) = False"
    and "drawn (shown e p pv sy c) =
           (scaledNiftyData e pv (Some sy), computeUserSeries (YEARS e) pv sy c, False)"
    and "simAmountInput (shown e p pv sy c) = simAmountInput p"
    and "simYearSelect (shown e p pv sy c) = simYearSelect p"
    and "activeBtn (shown e p pv sy c) = activeBtn p"
    by (simp_all add: shown_def cs)
qed

lemma shown_texts:
  assumes "sy \<le> CURRENT_YEAR e"
  shows "\<exists>ft rt ct. computeSummary pv sy c (CURRENT_YEAR e) = Some (ft, rt, ct) \<and>
           simFinalAmountEl (shown e p pv sy c) = setText (simFinalAmountEl p) ft \<and>
           simTotalReturnEl (shown e p pv sy c) = setText (simTotalReturnEl p) rt \<and>
           simCagrUsedEl (shown e p pv sy c) = setText (simCagrUsedEl p) ct"
proof -
  from assms obtain ft rt ct where
    cs: "computeSummary pv sy c (CURRENT_YEAR e) = Some (ft, rt, ct)"
    using computeSummary_None [of pv sy c "CURRENT_YEAR e"]
    by (cases "computeSummary pv sy c (CURRENT_YEAR e)") auto
  then show ?thesis by (simp add: shown_def)
qed

lemma shown_idem:
  "shown e (shown e p pv sy c) pv sy c = shown e p pv sy c"
  by (cases "computeSummary pv sy c (CURRENT_YEAR e)")
    (auto simp: shown_def setText_def split: option.splits)

lemma passes_inputs:
  "simAmountInput p = simAmountInput q \<Longrightarrow> simYearSelect p = simYearSelect q \<Longrightarrow>
   activeBtn p = activeBtn q \<Longrightarrow> passes e p = passes e q"
  by (simp add: passes_def)

lemma calculateGrowth_missing:
  "simAmountInput p = None \<or> simYearSelect p = None \<or> simResultBox p = None \<Longrightarrow>
     calculateGrowth e p = p"
  by (auto simp: calculateGrowth_def split: option.splits)

lemma calculateGrowth_idem: "calculateGrowth e (calculateGrowth e p) = calculateGrowth e p"
proof (cases "simAmountInput p = None \<or> simYearSelect p = None \<or> simResultBox p = None")
  case True
  then show ?thesis by (simp add: calculateGrowth_missing)
next
  case False
  then obtain a y b where el: "simAmountInput p = Some a" "simYearSelect p = Some y"
    "simResultBox p = Some b" by auto
  show ?thesis
  proof (cases "passes e p")
    case True
    then obtain raw x sy c where g: "activeBtn p = Some raw" "safeParseNumber (Str a) = Fin x"
      "1000 \<le> x" "parseInt10 y = Some sy" "parseCagr raw = Fin c" "sy \<le> CURRENT_YEAR e"
      using el unfolding passes_def by auto
    have 1: "calculateGrowth e p = shown e p (Fin x) sy (Fin c)"
      using el g by (rule calculateGrowth_pass)
    let ?p = "shown e p (Fin x) sy (Fin c)"
    have "calculateGrowth e ?p = shown e ?p (Fin x) sy (Fin c)"
      using g el by (intro calculateGrowth_pass [where a = a and y = y and raw = raw])
        (simp_all add: shown_fields [OF g(6)])
    then show ?thesis by (simp add: 1 shown_idem)
  next
    case False
    let ?s = "scaledNiftyData e (safeParseNumber (Str a)) (parseInt10 y)"
    let ?p = "suppress e (p\<lparr>ds0_data := ?s\<rparr>)"
    have 1: "calculateGrowth e p = ?p" using el False by (rule calculateGrowth_fail)
    have np: "\<not> passes e ?p" using False by (simp add: passes_def)
    have "calculateGrowth e ?p = suppress e (?p\<lparr>ds0_data := ?s\<rparr>)"
      by (rule calculateGrowth_fail [where b = "''none''"])
        (simp_all add: el np)
    also have "\<dots> = ?p" by (simp add: suppress_def hideUserSeries_def chartUpdate_def)
    finally show ?thesis by (simp add: 1)
  qed
qed





lemma loadedPage_fields [simp]:
  "simAmountInput (loadedPage e a y act) = Some a"
  "simYearSelect (loadedPage e a y act) = Some y"
  "simResultBox (loadedPage e a y act) = Some []"
  "activeBtn (loadedPage e a y act) = act"
  by (simp_all add: loadedPage_def)




section \<open>The summary\<close>




section \<open>The recalculation\<close>







text \<open>
  Claim C9. The recalculation is idempotent: run again on the page it has produced, it
  leaves that page as it is. And it is determined by its inputs: on two pages with the
  same amount, year and active category (the constants, so the axis and the benchmark,
  being the same), whatever they showed before, it produces the same benchmark and
  projection series, hands the same data to the renderer, shows or hides the result
  alike and, when it shows it, writes the same three texts.
\<close>

theorem calculateGrowth_idempotent:
  "calculateGrowth e (calculateGrowth e p) = calculateGrowth e p \<and>
   (simAmountInput p = simAmountInput q \<and> simYearSelect p = simYearSelect q \<and>
    activeBtn p = activeBtn q \<and> simAmountInput p \<noteq> None \<and> simYearSelect p \<noteq> None \<and>
    simResultBox p \<noteq> None \<and> simResultBox q \<noteq> None \<longrightarrow>
      ds0_data (calculateGrowth e p) = ds0_data (calculateGrowth e q) \<and>
      ds1_data (calculateGrowth e p) = ds1_data (calculateGrowth e q) \<and>
      ds1_hidden (calculateGrowth e p) = ds1_hidden (calculateGrowth e q) \<and>
      drawn (calculateGrowth e p) = drawn (calculateGrowth e q) \<and>
      simResultBox (calculateGrowth e p) = simResultBox (calculateGrowth e q) \<and>
      (simResultBox (calculateGrowth e p) = Some ''block'' \<longrightarrow>
         (\<exists>ft rt ct.
            simFinalAmountEl (calculateGrowth e p) = setText (simFinalAmountEl p) ft \<and>
            simFinalAmountEl (calculateGrowth e q) = setText (simFinalAmountEl q) ft \<and>
            simTotalReturnEl (calculateGrowth e p) = setText (simTotalReturnEl p) rt \<and>
            simTotalReturnEl (calculateGrowth e q) = setText (simTotalReturnEl q) rt \<and>
            simCagrUsedEl (calculateGrowth e p) = setText (simCagrUsedEl p) ct \<and>
            simCagrUsedEl (calculateGrowth e q) = setText (simCagrUsedEl q) ct)))"
proof (intro conjI impI)
  show "calculateGrowth e (calculateGrowth e p) = calculateGrowth e p"
    by (rule calculateGrowth_idem)
next
  assume h: "simAmountInput p = simAmountInput q \<and> simYearSelect p = simYearSelect q \<and>
    activeBtn p = activeBtn q \<and> simAmountInput p \<noteq> None \<and> simYearSelect p \<noteq> None \<and>
    simResultBox p \<noteq> None \<and> simResultBox q \<noteq> None"
  from h have n: "simAmountInput p \<noteq> None" "simYearSelect p \<noteq> None"
    "simResultBox p \<noteq> None" "simResultBox q \<noteq> None" by blast+
  from n(1) obtain a where a: "simAmountInput p = Some a" by (cases "simAmountInput p") auto
  from n(2) obtain y where y: "simYearSelect p = Some y" by (cases "simYearSelect p") auto
  from n(3) obtain b where b: "simResultBox p = Some b" by (cases "simResultBox p") auto
  from n(4) obtain b' where b': "simResultBox q = Some b'" by (cases "simResultBox q") auto
  from h a y have qa: "simAmountInput q = Some a" and qy: "simYearSelect q = Some y" by simp_all
  note el = a y b qa qy b'
  from h have pq: "passes e p = passes e q" by (intro passes_inputs) simp_all
  have "ds0_data (calculateGrowth e p) = ds0_data (calculateGrowth e q) \<and>
      ds1_data (calculateGrowth e p) = ds1_data (calculateGrowth e q) \<and>
      ds1_hidden (calculateGrowth e p) = ds1_hidden (calculateGrowth e q) \<and>
      drawn (calculateGrowth e p) = drawn (calculateGrowth e q) \<and>
      simResultBox (calculateGrowth e p) = simResultBox (calculateGrowth e q) \<and>
      (simResultBox (calculateGrowth e p) = Some ''block'' \<longrightarrow>
         (\<exists>ft rt ct.
            simFinalAmountEl (calculateGrowth e p) = setText (simFinalAmountEl p) ft \<and>
            simFinalAmountEl (calculateGrowth e q) = setText (simFinalAmountEl q) ft \<and>
            simTotalReturnEl (calculateGrowth e p) = setText (simTotalReturnEl p) rt \<and>
            simTotalReturnEl (calculateGrowth e q) = setText (simTotalReturnEl q) rt \<and>
            simCagrUsedEl (calculateGrowth e p) = setText (simCagrUsedEl p) ct \<and>
            simCagrUsedEl (calculateGrowth e q) = setText (simCagrUsedEl q) ct))"
  proof (cases "passes e p")
    case True
    then obtain raw x sy c where g: "activeBtn p = Some raw" "safeParseNumber (Str a) = Fin x"
      "1000 \<le> x" "parseInt10 y = Some sy" "parseCagr raw = Fin c" "sy \<le> CURRENT_YEAR e"
      using el unfolding passes_def by auto
    from h g have gq: "activeBtn q = Some raw" by simp
    have 1: "calculateGrowth e p = shown e p (Fin x) sy (Fin c)"
      using el(1-3) g by (rule calculateGrowth_pass)
    have 2: "calculateGrowth e q = shown e q (Fin x) sy (Fin c)"
      using el(4-6) gq g(2-6) by (rule calculateGrowth_pass)
    from shown_texts [OF g(6), of "Fin x" "Fin c" p] obtain ft rt ct where
      tp: "computeSummary (Fin x) sy (Fin c) (CURRENT_YEAR e) = Some (ft, rt, ct)"
        "simFinalAmountEl (shown e p (Fin x) sy (Fin c)) = setText (simFinalAmountEl p) ft"
        "simTotalReturnEl (shown e p (Fin x) sy (Fin c)) = setText (simTotalReturnEl p) rt"
        "simCagrUsedEl (shown e p (Fin x) sy (Fin c)) = setText (simCagrUsedEl p) ct"
      by blast
    from shown_texts [OF g(6), of "Fin x" "Fin c" q] tp(1) have
      tq: "simFinalAmountEl (shown e q (Fin x) sy (Fin c)) = setText (simFinalAmountEl q) ft"
        "simTotalReturnEl (shown e q (Fin x) sy (Fin c)) = setText (simTotalReturnEl q) rt"
        "simCagrUsedEl (shown e q (Fin x) sy (Fin c)) = setText (simCagrUsedEl q) ct"
      by auto
    have texts: "\<exists>ft rt ct.
        simFinalAmountEl (shown e p (Fin x) sy (Fin c)) = setText (simFinalAmountEl p) ft \<and>
        simFinalAmountEl (shown e q (Fin x) sy (Fin c)) = setText (simFinalAmountEl q) ft \<and>
        simTotalReturnEl (shown e p (Fin x) sy (Fin c)) = setText (simTotalReturnEl p) rt \<and>
        simTotalReturnEl (shown e q (Fin x) sy (Fin c)) = setText (simTotalReturnEl q) rt \<and>
        simCagrUsedEl (shown e p (Fin x) sy (Fin c)) = setText (simCagrUsedEl p) ct \<and>
        simCagrUsedEl (shown e q (Fin x) sy (Fin c)) = setText (simCagrUsedEl q) ct"
      using tp(2-4) tq by blast
    show ?thesis unfolding 1 2 using texts by (simp add: shown_fields [OF g(6)])
  next
    case False
    with pq have nq: "\<not> passes e q" by simp
    have 1: "calculateGrowth e p =
        suppress e (p\<lparr>ds0_data := scaledNiftyData e (safeParseNumber (Str a)) (parseInt10 y)\<rparr>)"
      using el(1-3) False by (rule calculateGrowth_fail)
    have 2: "calculateGrowth e q =
        suppress e (q\<lparr>ds0_data := scaledNiftyData e (safeParseNumber (Str a)) (parseInt10 y)\<rparr>)"
      using el(4-6) nq by (rule calculateGrowth_fail)
    show ?thesis unfolding 1 2 by simp
  qed
  then show "ds0_data (calculateGrowth e p) = ds0_data (calculateGrowth e q)"
    and "ds1_data (calculateGrowth e p) = ds1_data (calculateGrowth e q)"
    and "ds1_hidden (calculateGrowth e p) = ds1_hidden (calculateGrowth e q)"
    and "drawn (calculateGrowth e p) = drawn (calculateGrowth e q)"
    and "simResultBox (calculateGrowth e p) = simResultBox (calculateGrowth e q)"
    and  "simResultBox (calculateGrowth e p) = Some ''block'' \<Longrightarrow>
         (\<exists>ft rt ct.
            simFinalAmountEl (calculateGrowth e p) = setText (simFinalAmountEl p) ft \<and>
            simFinalAmountEl (calculateGrowth e q) = setText (simFinalAmountEl q) ft \<and>
            simTotalReturnEl (calculateGrowth e p) = setText (simTotalReturnEl p) rt \<and>
            simTotalReturnEl (calculateGrowth e q) = setText (simTotalReturnEl q) rt \<and>
            simCagrUsedEl (calculateGrowth e p) = setText (simCagrUsedEl p) ct \<and>
            simCagrUsedEl (calculateGrowth e q) = setText (simCagrUsedEl q) ct)"
    by blast+
qed

theorem calculateGrowth_idempotent_witness:
  "simAmountInput (loadedPage (startup 2025) ''10,000'' ''2020'' (Some (Str ''12''))) =
     simAmountInput ((loadedPage (startup 2025) ''10,000'' ''2020'' (Some (Str ''12'')))
        \<lparr>simResultBox := Some ''none'', ds0_data := [], simFinalAmountEl := Some ''old''\<rparr>) \<and>
   ds0_data (calculateGrowth (startup 2025)
       (loadedPage (startup 2025) ''10,000'' ''2020'' (Some (Str ''12'')))) =
     ds0_data (calculateGrowth (startup 2025)
       ((loadedPage (startup 2025) ''10,000'' ''2020'' (Some (Str ''12'')))
          \<lparr>simResultBox := Some ''none'', ds0_data := [], simFinalAmountEl := Some ''old''\<rparr>)) \<and>
   ds1_data (calculateGrowth (startup 2025)
       (loadedPage (startup 2025) ''10,000'' ''2020'' (Some (Str ''12'')))) =
     ds1_data (calculateGrowth (startup 2025)
       ((loadedPage (startup 2025) ''10,000'' ''2020'' (Some (Str ''12'')))
          \<lparr>simResultBox := Some ''none'', ds0_data := [], simFinalAmountEl := Some ''old''\<rparr>))"
proof -
  let ?e = "startup 2025"
  let ?p = "loadedPage ?e ''10,000'' ''2020'' (Some (Str ''12''))"
  let ?q = "?p\<lparr>simResultBox := Some ''none'', ds0_data := [], simFinalAmountEl := Some ''old''\<rparr>"
  have h: "simAmountInput ?p = simAmountInput ?q \<and> simYearSelect ?p = simYearSelect ?q \<and>
    activeBtn ?p = activeBtn ?q \<and> simAmountInput ?p \<noteq> None \<and> simYearSelect ?p \<noteq> None \<and>
    simResultBox ?p \<noteq> None \<and> simResultBox ?q \<noteq> None" by simp
  from calculateGrowth_idempotent [of ?e ?p ?q] h
  have "ds0_data (calculateGrowth ?e ?p) = ds0_data (calculateGrowth ?e ?q) \<and>
        ds1_data (calculateGrowth ?e ?p) = ds1_data (calculateGrowth ?e ?q)" by blast
  with h show ?thesis by blast
qed

end

